theory Spec2Isabelle
  imports Complex_Main "HOL-Library.Log_Nat"
begin

text \<open>
  The escrow game lifecycle of the chess wagering server: the request handlers that
  create a game, verify the creator's payment, let an opponent join, verify the
  opponent's payment and complete the game with its payouts, together with the helpers
  they call (parameter validation, payment verification, the fee, the payout). The
  store, the ledger and the chess platform are outside the program; the handlers are
  functions of their answers.
\<close>

section \<open>JavaScript numbers\<close>

text \<open>
  The program computes with JavaScript numbers, which are IEEE double precision numbers.
  A number is modelled as the value \<open>NaN\<close>, one of the two infinities, or a finite
  value, which is a real. An arithmetic operation takes the exact result and rounds it to
  the nearest double, a tie going to the even mantissa, and to an infinity beyond the
  largest double. The sign of zero is not modelled.
\<close>

datatype jsnum = NaN | PInf | NInf | Num real

subsection \<open>Rounding to double precision\<close>

definition pow2 :: "int \<Rightarrow> real" where
  "pow2 e = (if 0 \<le> e then 2 ^ nat e else 1 / 2 ^ nat (- e))"

text \<open>
  The binary exponent of a positive real, \<open>\<lfloor>log 2 x\<rfloor>\<close>, computed from the bit length
  of its integer part, or of the integer part of its inverse.
\<close>

definition floor_log2 :: "real \<Rightarrow> int" where
  "floor_log2 x = (if 1 \<le> x then bitlen \<lfloor>x\<rfloor> - 1 else - bitlen (\<lceil>1 / x\<rceil> - 1))"

text \<open>The nearest integer, a tie going to the even one.\<close>

definition round_even :: "real \<Rightarrow> int" where
  "round_even m =
     (let f = \<lfloor>m\<rfloor>; d = m - of_int f
      in if d < 1 / 2 then f else if 1 / 2 < d then f + 1 else if even f then f else f + 1)"

text \<open>
  The nearest double: a mantissa of 53 bits at the exponent of the number, which is not
  below that of the subnormal numbers, \<open>- 1074\<close>.
\<close>

definition rd :: "real \<Rightarrow> real" where
  "rd x =
     (if x = 0 then 0
      else let e = max (floor_log2 \<bar>x\<bar> - 52) (- 1074)
           in sgn x * of_int (round_even (\<bar>x\<bar> / pow2 e)) * pow2 e)"

text \<open>
  \<^verbatim>\<open>Number.MAX_VALUE\<close>, and the number that an exact result becomes: an infinity from
  half a unit in the last place above \<^verbatim>\<open>MAX_VALUE\<close> on.
\<close>

definition MAX_VALUE :: real where
  "MAX_VALUE = 2 ^ 1024 - 2 ^ 971"

definition fl :: "real \<Rightarrow> jsnum" where
  "fl x = (if 2 ^ 1024 - 2 ^ 970 \<le> \<bar>x\<bar> then (if 0 < x then PInf else NInf) else Num (rd x))"

subsection \<open>The operations\<close>

text \<open>The relational operator \<^verbatim>\<open><=\<close>.\<close>

fun js_le :: "jsnum \<Rightarrow> jsnum \<Rightarrow> bool" where
  "js_le NaN b = False"
| "js_le a NaN = False"
| "js_le NInf b = True"
| "js_le a PInf = True"
| "js_le PInf b = False"
| "js_le a NInf = False"
| "js_le (Num x) (Num y) = (x \<le> y)"

text \<open>Strict equality \<^verbatim>\<open>===\<close> of two numbers: \<open>NaN\<close> equals nothing.\<close>

definition js_eq :: "jsnum \<Rightarrow> jsnum \<Rightarrow> bool" where
  "js_eq a b = (a \<noteq> NaN \<and> b \<noteq> NaN \<and> a = b)"

fun js_neg :: "jsnum \<Rightarrow> jsnum" where
  "js_neg NaN = NaN"
| "js_neg PInf = NInf"
| "js_neg NInf = PInf"
| "js_neg (Num x) = Num (- x)"

text \<open>An infinity multiplied by a finite number, by the sign of that number.\<close>

definition inf_times :: "jsnum \<Rightarrow> real \<Rightarrow> jsnum" where
  "inf_times i y = (if y = 0 then NaN else if 0 < y then i else js_neg i)"

fun js_mul :: "jsnum \<Rightarrow> jsnum \<Rightarrow> jsnum" where
  "js_mul NaN b = NaN"
| "js_mul a NaN = NaN"
| "js_mul (Num x) (Num y) = fl (x * y)"
| "js_mul (Num x) b = inf_times b x"
| "js_mul a (Num y) = inf_times a y"
| "js_mul PInf b = b"
| "js_mul NInf b = js_neg b"

fun js_div :: "jsnum \<Rightarrow> jsnum \<Rightarrow> jsnum" where
  "js_div NaN b = NaN"
| "js_div a NaN = NaN"
| "js_div (Num x) (Num y) =
     (if y \<noteq> 0 then fl (x / y)
      else if x = 0 then NaN else if 0 < x then PInf else NInf)"
| "js_div (Num x) b = Num 0"
| "js_div a (Num y) = (if 0 \<le> y then a else js_neg a)"
| "js_div a b = NaN"

fun js_sub :: "jsnum \<Rightarrow> jsnum \<Rightarrow> jsnum" where
  "js_sub NaN b = NaN"
| "js_sub a NaN = NaN"
| "js_sub (Num x) (Num y) = fl (x - y)"
| "js_sub (Num x) b = js_neg b"
| "js_sub a (Num y) = a"
| "js_sub PInf NInf = PInf"
| "js_sub NInf PInf = NInf"
| "js_sub a b = NaN"

text \<open>\<^verbatim>\<open>Math.min\<close> of two numbers.\<close>

fun js_min :: "jsnum \<Rightarrow> jsnum \<Rightarrow> jsnum" where
  "js_min NaN b = NaN"
| "js_min a NaN = NaN"
| "js_min a b = (if js_le a b then a else b)"

text \<open>
  \<^verbatim>\<open>BigInt(n)\<close>, by which the ledger library takes the amount of a transfer, throws
  unless the number is an integer.
\<close>

fun is_integer :: "jsnum \<Rightarrow> bool" where
  "is_integer (Num x) = (x = of_int \<lfloor>x\<rfloor>)"
| "is_integer a = False"

subsection \<open>parseFloat\<close>

text \<open>
  \<^verbatim>\<open>parseFloat\<close> skips leading white space and reads the longest prefix that is a
  decimal literal: an optional sign, then \<^verbatim>\<open>Infinity\<close>, or digits with an optional
  fraction and an optional exponent. With no such prefix the result is \<open>NaN\<close>; what
  follows the prefix is ignored. The result is the double nearest to the value of the
  literal. Only the ASCII white space characters are recognised here.
\<close>

definition is_digit :: "char \<Rightarrow> bool" where
  "is_digit c = (c \<in> set ''0123456789'')"

definition js_whitespace :: "char \<Rightarrow> bool" where
  "js_whitespace c = (c \<in> set [CHR '' '', CHR 0x09, CHR 0x0A, CHR 0x0B, CHR 0x0C, CHR 0x0D])"

definition digits_val :: "string \<Rightarrow> nat" where
  "digits_val ds = foldl (\<lambda>a c. 10 * a + (of_char c - 48)) 0 ds"

definition pow10 :: "int \<Rightarrow> real" where
  "pow10 e = (if 0 \<le> e then 10 ^ nat e else 1 / 10 ^ nat (- e))"

definition signed_digits :: "string \<Rightarrow> (bool \<times> string)" where
  "signed_digits t =
     (case t of
        [] \<Rightarrow> (False, t)
      | c # r \<Rightarrow> if c = CHR ''-'' then (True, r)
                 else if c = CHR ''+'' then (False, r) else (False, t))"

definition exponent_part :: "string \<Rightarrow> int" where
  "exponent_part r =
     (case r of
        [] \<Rightarrow> 0
      | c # r' \<Rightarrow>
          if c = CHR ''e'' \<or> c = CHR ''E'' then
            (let (neg, u) = signed_digits r'; ds = takeWhile is_digit u
             in if ds = [] then 0
                else if neg then - int (digits_val ds) else int (digits_val ds))
          else 0)"

definition parseFloat :: "string \<Rightarrow> jsnum" where
  "parseFloat s =
     (let (neg, u) = signed_digits (dropWhile js_whitespace s)
      in if take 8 u = ''Infinity'' then (if neg then NInf else PInf)
         else
           let ip = takeWhile is_digit u;
               r1 = dropWhile is_digit u;
               (fp, r2) = (case r1 of
                             [] \<Rightarrow> ([], r1)
                           | c # r \<Rightarrow> if c = CHR ''.''
                                      then (takeWhile is_digit r, dropWhile is_digit r)
                                      else ([], r1))
           in if ip = [] \<and> fp = [] then NaN
              else fl ((if neg then - 1 else 1)
                       * (real (digits_val ip) + real (digits_val fp) / 10 ^ length fp)
                       * pow10 (exponent_part r2)))"

section \<open>Constants and the environment\<close>

text \<open>
  \<^verbatim>\<open>TOKENS\<close>, \<^verbatim>\<open>SPL_MAP\<close> and \<^verbatim>\<open>LAMPORTS_PER_SOL\<close> as the
  program defines them. A mint is written as its base-58 string.
\<close>

definition TOKENS_SOL :: string where "TOKENS_SOL = ''SOL''"
definition TOKENS_USDC :: string where "TOKENS_USDC = ''USDC''"
definition TOKENS_BONK :: string where "TOKENS_BONK = ''BONK''"

definition TOKENS_values :: "string list" where
  "TOKENS_values = [TOKENS_SOL, TOKENS_USDC, TOKENS_BONK]"

record token_info =
  mint :: string
  decimals :: nat

definition SPL_MAP_entries :: "(string \<times> token_info) list" where
  "SPL_MAP_entries =
     [(TOKENS_USDC, \<lparr>mint = ''EPjFWdd5AufqSSqeM2qN1xzybapC8G4wEGGkZwyTDt1v'', decimals = 6\<rparr>),
      (TOKENS_BONK, \<lparr>mint = ''DezXAZ8z7PnrnRJjz3wXBoRgixCa6xjnB7YaB1pPB263'', decimals = 5\<rparr>)]"

definition SPL_MAP :: "string \<Rightarrow> token_info option" where
  "SPL_MAP = map_of SPL_MAP_entries"

definition LAMPORTS_PER_SOL :: jsnum where
  "LAMPORTS_PER_SOL = Num 1000000000"

text \<open>
  What the program reads from outside its own text is gathered in one record: the
  constants \<^verbatim>\<open>CHARGE_PERCENTAGE\<close>, \<^verbatim>\<open>CAP_AMOUNT\<close>, \<^verbatim>\<open>DRAW\<close> and
  \<^verbatim>\<open>MATE\<close> (imported from the constants module, whose text does not define them),
  the escrow wallet, and the answers of the external services: the profile and game
  export of the chess platform, the ledger, and the library constructor of public keys.
\<close>

datatype confirmation = Processed | Confirmed | Finalized

datatype signature_status =
    RpcError \<comment> \<open>the query throws\<close>
  | NoStatus \<comment> \<open>a falsy response\<close>
  | SigValue "confirmation option" \<comment> \<open>\<^verbatim>\<open>status.value?.confirmationStatus\<close>\<close>

record info =
  destination :: "string option"
  lamports :: "jsnum option"
  info_mint :: "string option"
  tokenAmount :: "jsnum option" \<comment> \<open>\<^verbatim>\<open>info.tokenAmount.amount\<close>, when \<^verbatim>\<open>tokenAmount\<close> is there\<close>

datatype instruction =
    ParsedInstruction (program: string) (parsed_type: string) (parsed_info: info)
  | PartiallyDecodedInstruction

record ParsedTransactionWithMeta =
  meta :: "bool option" \<comment> \<open>\<open>None\<close>: no metadata; \<open>Some e\<close>: \<open>e\<close> says that \<^verbatim>\<open>meta.err\<close> is set\<close>
  instructions :: "instruction list"

datatype colour = White | Black

record game_stats =
  stat_status :: string
  players :: "(string \<times> string) option" \<comment> \<open>the user ids of white and black, when both are there\<close>
  winner :: "colour option"

record PayoutConfig =
  cfg_amount :: jsnum
  cfg_token :: string
  cfg_recipientAddress :: string

record env =
  CHARGE_PERCENTAGE :: real
  CAP_AMOUNT :: real
  DRAW :: string
  MATE :: string
  APP_WALLET :: string
  getProfileDetail :: "string \<Rightarrow> bool" \<comment> \<open>\<open>False\<close>: the lookup throws\<close>
  PublicKey_toBase58 :: "string \<Rightarrow> string option" \<comment> \<open>\<open>None\<close>: the constructor throws\<close>
  getSignatureStatus :: "string \<Rightarrow> signature_status"
  getParsedTransaction :: "string \<Rightarrow> ParsedTransactionWithMeta option"
  getGameStats :: "string \<Rightarrow> game_stats option" \<comment> \<open>\<open>None\<close>: the fetch throws\<close>
  sendAndConfirmTransaction :: "PayoutConfig \<Rightarrow> bool" \<comment> \<open>building and submitting the transfer succeeds\<close>
  insert_id :: "string option" \<comment> \<open>the id the store gives a new row; \<open>None\<close>: the insert is refused\<close>
  update_refused :: bool

section \<open>Errors\<close>

text \<open>
  The program throws strings, one constructor each here. A thrown value that is not a
  string reaches the caller as "An unknown error occurred": \<open>UnknownError\<close>.
\<close>

datatype error =
    MissingGameId \<comment> \<open>Missing input query parameter: gameId\<close>
  | MissingUsername \<comment> \<open>Missing input query parameter: username\<close>
  | InvalidUsername \<comment> \<open>Ensure you have entered a valid Lichess username\<close>
  | InvalidAmount \<comment> \<open>Invalid input query parameter: amount\<close>
  | MissingToken \<comment> \<open>Missing input query parameter: token\<close>
  | InvalidTokenParameter \<comment> \<open>Invalid input query parameter: token. Must be one of ...\<close>
  | InvalidAccount \<comment> \<open>Invalid "account" provided\<close>
  | InvalidSignature \<comment> \<open>Invalid "signature" provided\<close>
  | UnknownSignatureStatus \<comment> \<open>Unknown signature status\<close>
  | UnableToConfirmTransaction \<comment> \<open>Unable to confirm the transaction\<close>
  | UnableToConfirmSignature \<comment> \<open>Unable to confirm the provided signature\<close>
  | InvalidOrFailedTransaction \<comment> \<open>Invalid or failed transaction\<close>
  | DetailsMismatch \<comment> \<open>Transaction details do not match expected values\<close>
  | InvalidToken \<comment> \<open>Invalid token\<close>
  | ErrorCreatingGame \<comment> \<open>Error creating game, please try again\<close>
  | ErrorUpdatingGame \<comment> \<open>Error updating game, please try again\<close>
  | MissingGameUid \<comment> \<open>Missing input query parameter: gameUid\<close>
  | GameUidRequired \<comment> \<open>Game UID is required\<close>
  | GameNotFound \<comment> \<open>Game not found\<close>
  | GameNotVerified \<comment> \<open>Game is not verified\<close>
  | GameNotAvailable \<comment> \<open>Game is not available to join\<close>
  | CannotJoinOwnGame \<comment> \<open>You cannot join your own game\<close>
  | UnableToGetStats \<comment> \<open>Unable to get game stats\<close>
  | GameNotOver \<comment> \<open>Game is not over\<close>
  | AlreadyCompleted \<comment> \<open>Game is already completed\<close>
  | AddressNotFound string \<comment> \<open>Address not found for winner: ...\<close>
  | UnknownError

section \<open>The game record and the store\<close>

datatype game_status = Created | Matched | Completed

text \<open>
  The type \<^verbatim>\<open>Game\<close>. The field \<^verbatim>\<open>id\<close> is \<open>id'\<close> here; \<^verbatim>\<open>created_at\<close>, which the
  database sets and the program only displays, is left out. An optional field is
  \<open>None\<close> when the row has no value for it: the store then returns \<^verbatim>\<open>null\<close>.
\<close>

record Game =
  id' :: string
  game_id :: string
  username :: string
  amount :: jsnum
  token :: string
  player_address :: string
  recipient_address :: string
  signature :: "string option"
  is_verified :: bool
  is_public :: bool
  status :: game_status
  opponent_username :: "string option"
  opponent_address :: "string option"
  opponent_signature :: "string option"

text \<open>
  The table \<^verbatim>\<open>games\<close> is the list of its rows. A query ending in \<^verbatim>\<open>.single()\<close>
  reports an error unless exactly one row is selected; the two reads then return
  \<^verbatim>\<open>null\<close>.
\<close>

definition single :: "'a list \<Rightarrow> 'a option" where
  "single rows = (case rows of [r] \<Rightarrow> Some r | _ \<Rightarrow> None)"

definition getGame :: "Game list \<Rightarrow> string \<Rightarrow> Game option" where
  "getGame rows gameId = single (filter (\<lambda>g. game_id g = gameId) rows)"

definition getGameById :: "Game list \<Rightarrow> string \<Rightarrow> Game option" where
  "getGameById rows i = single (filter (\<lambda>g. id' g = i) rows)"

text \<open>
  \<^verbatim>\<open>addGame\<close> inserts the row, which the store gives its id, unless the store refuses.
\<close>

definition addGame :: "env \<Rightarrow> Game list \<Rightarrow> Game \<Rightarrow> error + Game list" where
  "addGame e rows game =
     (case insert_id e of
        None \<Rightarrow> Inl ErrorCreatingGame
      | Some i \<Rightarrow> Inr (rows @ [game\<lparr>id' := i\<rparr>]))"

text \<open>
  \<^verbatim>\<open>updateGame\<close> changes the given fields of the rows with that \<^verbatim>\<open>game_id\<close>; the
  partial record is the function that sets these fields. The update is
  \<^verbatim>\<open>.single()\<close>: it is an error, and nothing is written, unless it selects exactly one
  row. The store may also refuse the write.
\<close>

definition updateGame :: "env \<Rightarrow> Game list \<Rightarrow> string \<Rightarrow> (Game \<Rightarrow> Game) \<Rightarrow> error + Game list" where
  "updateGame e rows gameId patch =
     (if update_refused e \<or> single (filter (\<lambda>g. game_id g = gameId) rows) = None
      then Inl ErrorUpdatingGame
      else Inr (map (\<lambda>g. if game_id g = gameId then patch g else g) rows))"

section \<open>Validation helpers\<close>

type_synonym QueryT = "string \<Rightarrow> string option"

text \<open>A query parameter is truthy when it is present and not the empty string.\<close>

definition truthy :: "string option \<Rightarrow> bool" where
  "truthy v = (case v of None \<Rightarrow> False | Some s \<Rightarrow> s \<noteq> [])"

record query_params =
  p_amount :: jsnum
  p_username :: string
  p_gameId :: string
  p_token :: string
  p_isPublic :: bool

text \<open>
  The \<^verbatim>\<open>try\<close> block around the amount turns both of its throws into
  "Invalid input query parameter: amount".
\<close>

definition validatedQueryParams :: "env \<Rightarrow> QueryT \<Rightarrow> error + query_params" where
  "validatedQueryParams e query =
     (case query ''gameId'' of
        None \<Rightarrow> Inl MissingGameId
      | Some gameId \<Rightarrow>
          if gameId = [] then Inl MissingGameId
          else let isPublic = truthy (query ''public'') in
          (case query ''username'' of
             None \<Rightarrow> Inl MissingUsername
           | Some uname \<Rightarrow>
               if uname = [] then Inl MissingUsername
               else if \<not> getProfileDetail e uname then Inl InvalidUsername
               else
               (case query ''amount'' of
                  None \<Rightarrow> Inl InvalidAmount
                | Some a \<Rightarrow>
                    if a = [] then Inl InvalidAmount
                    else let amnt = parseFloat a in
                    if js_le amnt (Num 0) then Inl InvalidAmount
                    else
                    (case query ''token'' of
                       None \<Rightarrow> Inl MissingToken
                     | Some tok \<Rightarrow>
                         if tok = [] then Inl MissingToken
                         else if tok \<notin> set TOKENS_values then Inl InvalidTokenParameter
                         else Inr \<lparr>p_amount = amnt, p_username = uname, p_gameId = gameId,
                                   p_token = tok, p_isPublic = isPublic\<rparr>))))"

definition validateUsername :: "env \<Rightarrow> QueryT \<Rightarrow> error + string" where
  "validateUsername e query =
     (case query ''username'' of
        None \<Rightarrow> Inl MissingUsername
      | Some uname \<Rightarrow>
          if uname = [] then Inl MissingUsername
          else if \<not> getProfileDetail e uname then Inl InvalidUsername
          else Inr uname)"

section \<open>Payment verification\<close>

text \<open>
  \<^verbatim>\<open>validateSignature\<close> looks at the first instruction only. Reading a property of
  the missing first instruction of an empty list, or of a missing \<^verbatim>\<open>tokenAmount\<close>,
  throws a \<^verbatim>\<open>TypeError\<close>, which is not a string. A missing \<^verbatim>\<open>lamports\<close> divides
  to \<open>NaN\<close>.
\<close>

definition num_of :: "jsnum option \<Rightarrow> jsnum" where
  "num_of v = (case v of None \<Rightarrow> NaN | Some n \<Rightarrow> n)"

definition validateSignature :: "Game \<Rightarrow> ParsedTransactionWithMeta \<Rightarrow> error + unit" where
  "validateSignature game parsedTx =
     (case instructions parsedTx of
        [] \<Rightarrow> Inl UnknownError
      | instruction # _ \<Rightarrow>
          if token game = TOKENS_SOL then
            (case instruction of
               PartiallyDecodedInstruction \<Rightarrow> Inr ()
             | ParsedInstruction prog ty pinfo \<Rightarrow>
                 if prog = ''system'' \<and> ty = ''transfer'' then
                   (let amountInSol = js_div (num_of (lamports pinfo)) LAMPORTS_PER_SOL;
                        isValid = (destination pinfo = Some (recipient_address game)
                                   \<and> js_eq amountInSol (amount game))
                    in if \<not> isValid then Inl DetailsMismatch else Inr ())
                 else Inr ())
          else
            (case instruction of
               PartiallyDecodedInstruction \<Rightarrow> Inr ()
             | ParsedInstruction prog ty pinfo \<Rightarrow>
                 if ty = ''transferChecked'' then
                   (case find (\<lambda>t. Some (mint t) = info_mint pinfo) (map snd SPL_MAP_entries) of
                      None \<Rightarrow> Inl InvalidToken
                    | Some tokenInfo \<Rightarrow>
                        (case tokenAmount pinfo of
                           None \<Rightarrow> Inl UnknownError
                         | Some raw \<Rightarrow>
                             (let amnt = js_div raw (Num (10 ^ decimals tokenInfo));
                                  isValid = (destination pinfo = Some (recipient_address game)
                                             \<and> js_eq amnt (amount game))
                              in if \<not> isValid then Inl DetailsMismatch else Inr ())))
                 else Inr ()))"

section \<open>Fee and payout\<close>

definition getFee :: "env \<Rightarrow> jsnum \<Rightarrow> jsnum" where
  "getFee e amnt =
     (let charge = js_mul amnt (js_div (Num (CHARGE_PERCENTAGE e)) (Num 100))
      in js_min charge (Num (CAP_AMOUNT e)))"

text \<open>
  \<^verbatim>\<open>sendPayout\<close> constructs the recipient's key outside its \<^verbatim>\<open>try\<close> block, so an
  address that is no key throws to the caller. Everything after that is caught and
  turned into the result \<^verbatim>\<open>{success: false}\<close>: an unknown token, decimals that are
  zero, an amount in the smallest unit that is no integer (the transfer instruction
  converts it with \<^verbatim>\<open>BigInt\<close>, which throws), and a transfer that the ledger does not
  confirm. \<open>try_block\<close> is the success flag of the result. The ledger log records each payout that \<^verbatim>\<open>sendPayout\<close> was
  asked for and that reached the \<^verbatim>\<open>try\<close> block, with the flag returned
  (\<open>logged\<close>).
\<close>

definition try_block :: "env \<Rightarrow> PayoutConfig \<Rightarrow> bool" where
  "try_block e config =
     (if cfg_token config = ''SOL'' then
        is_integer (js_mul (cfg_amount config) LAMPORTS_PER_SOL)
        \<and> sendAndConfirmTransaction e config
      else (case SPL_MAP (cfg_token config) of
              None \<Rightarrow> False
            | Some tokenInfo \<Rightarrow>
                if decimals tokenInfo = 0 then False
                else is_integer (js_mul (cfg_amount config) (Num (10 ^ decimals tokenInfo)))
                     \<and> sendAndConfirmTransaction e config))"

definition logged :: "env \<Rightarrow> PayoutConfig \<Rightarrow> PayoutConfig \<times> bool" where
  "logged e config = (config, try_block e config)"

definition sendPayout ::
  "env \<Rightarrow> (PayoutConfig \<times> bool) list \<Rightarrow> PayoutConfig \<Rightarrow> error + (bool \<times> (PayoutConfig \<times> bool) list)" where
  "sendPayout e led config =
     (case PublicKey_toBase58 e (cfg_recipientAddress config) of
        None \<Rightarrow> Inl UnknownError
      | Some recipient \<Rightarrow> Inr (try_block e config, led @ [logged e config]))"

section \<open>The request handlers\<close>

text \<open>
  A handler takes the environment, the state (the table and the ledger log) and the
  request, and returns the response or the error together with the new state. The
  cluster parameters, the connection object and the text of the response carry no
  decision and are left out. Creating the connection, fetching the parsed transaction
  and the block hash, and encoding the response are taken not to throw.
\<close>

record world =
  games :: "Game list"
  ledger :: "(PayoutConfig \<times> bool) list"

record request =
  query :: QueryT
  body_account :: "string option"
  body_signature :: "string option"

datatype response =
    PostResponse jsnum string string \<comment> \<open>the transfer to sign: amount, token, paying account\<close>
  | CompletedAction

text \<open>The blocks that the handlers repeat word for word.\<close>

definition account_of :: "env \<Rightarrow> request \<Rightarrow> error + string" where
  "account_of e req =
     (case body_account req of
        None \<Rightarrow> Inl InvalidAccount
      | Some a \<Rightarrow> (case PublicKey_toBase58 e a of
                    None \<Rightarrow> Inl InvalidAccount
                  | Some account \<Rightarrow> Inr account))"

definition signature_of :: "request \<Rightarrow> error + string" where
  "signature_of req =
     (case body_signature req of
        None \<Rightarrow> Inl InvalidSignature
      | Some sig \<Rightarrow> if sig = [] then Inl InvalidSignature else Inr sig)"

definition confirm_signature :: "env \<Rightarrow> string \<Rightarrow> error + unit" where
  "confirm_signature e sig =
     (case getSignatureStatus e sig of
        RpcError \<Rightarrow> Inl UnableToConfirmSignature
      | NoStatus \<Rightarrow> Inl UnknownSignatureStatus
      | SigValue None \<Rightarrow> Inr ()
      | SigValue (Some c) \<Rightarrow>
          if c \<noteq> Confirmed \<and> c \<noteq> Finalized then Inl UnableToConfirmTransaction else Inr ())"

definition parsed_transaction :: "env \<Rightarrow> string \<Rightarrow> error + ParsedTransactionWithMeta" where
  "parsed_transaction e sig =
     (case getParsedTransaction e sig of
        None \<Rightarrow> Inl InvalidOrFailedTransaction
      | Some parsedTx \<Rightarrow>
          (case meta parsedTx of
             None \<Rightarrow> Inl InvalidOrFailedTransaction
           | Some err \<Rightarrow> if err then Inl InvalidOrFailedTransaction else Inr parsedTx))"

text \<open>
  Building the transfer that the client is to sign. \<^verbatim>\<open>transferSol\<close> and
  \<^verbatim>\<open>transferSPLToken\<close> hand \<^verbatim>\<open>amount * LAMPORTS_PER_SOL\<close>, or the amount times ten
  to the decimals of the token, to the ledger library, which converts it with
  \<^verbatim>\<open>BigInt\<close> and throws when it is no integer. Destructuring \<^verbatim>\<open>SPL_MAP[token]\<close> of a
  token that is not registered throws too. Neither throw is a string.
\<close>

definition transfer_built :: "string \<Rightarrow> jsnum \<Rightarrow> bool" where
  "transfer_built tok amnt =
     (if tok = TOKENS_SOL then is_integer (js_mul amnt LAMPORTS_PER_SOL)
      else (case SPL_MAP tok of
              None \<Rightarrow> False
            | Some tokenInfo \<Rightarrow> is_integer (js_mul amnt (Num (10 ^ decimals tokenInfo)))))"

definition postCreateGame :: "env \<Rightarrow> world \<Rightarrow> request \<Rightarrow> (error + response) \<times> world" where
  "postCreateGame e w req =
     (case validatedQueryParams e (query req) of
        Inl err \<Rightarrow> (Inl err, w)
      | Inr p \<Rightarrow>
          (case account_of e req of
             Inl err \<Rightarrow> (Inl err, w)
           | Inr account \<Rightarrow>
               (case addGame e (games w)
                       \<lparr>id' = [], game_id = p_gameId p, username = p_username p,
                        amount = p_amount p, token = p_token p, player_address = account,
                        recipient_address = APP_WALLET e, signature = None,
                        is_verified = False, is_public = p_isPublic p, status = Created,
                        opponent_username = None, opponent_address = None,
                        opponent_signature = None\<rparr> of
                  Inl err \<Rightarrow> (Inl err, w)
                | Inr rows \<Rightarrow>
                    if \<not> transfer_built (p_token p) (p_amount p)
                    then (Inl UnknownError, w\<lparr>games := rows\<rparr>)
                    else (Inr (PostResponse (p_amount p) (p_token p) account),
                          w\<lparr>games := rows\<rparr>))))"

definition postVerifyCreateGame :: "env \<Rightarrow> world \<Rightarrow> request \<Rightarrow> (error + response) \<times> world" where
  "postVerifyCreateGame e w req =
     (case query req ''gameId'' of
        None \<Rightarrow> (Inl MissingGameId, w)
      | Some gameId \<Rightarrow>
          if gameId = [] then (Inl MissingGameId, w)
          else
          (case account_of e req of
             Inl err \<Rightarrow> (Inl err, w)
           | Inr account \<Rightarrow>
          (case signature_of req of
             Inl err \<Rightarrow> (Inl err, w)
           | Inr sig \<Rightarrow>
          (case confirm_signature e sig of
             Inl err \<Rightarrow> (Inl err, w)
           | Inr _ \<Rightarrow>
          (case getGame (games w) gameId of
             None \<Rightarrow> (Inl GameNotFound, w)
           | Some game \<Rightarrow>
          (case parsed_transaction e sig of
             Inl err \<Rightarrow> (Inl err, w)
           | Inr parsedTx \<Rightarrow>
          (case validateSignature game parsedTx of
             Inl err \<Rightarrow> (Inl err, w)
           | Inr _ \<Rightarrow>
          (case updateGame e (games w) gameId
                  (\<lambda>g. g\<lparr>signature := Some sig, is_verified := True\<rparr>) of
             Inl err \<Rightarrow> (Inl err, w)
           | Inr rows \<Rightarrow> (Inr CompletedAction, w\<lparr>games := rows\<rparr>)))))))))"

definition postJoinGame :: "env \<Rightarrow> world \<Rightarrow> request \<Rightarrow> (error + response) \<times> world" where
  "postJoinGame e w req =
     (case validateUsername e (query req) of
        Inl err \<Rightarrow> (Inl err, w)
      | Inr uname \<Rightarrow>
          (case query req ''gameUid'' of
             None \<Rightarrow> (Inl MissingGameUid, w)
           | Some gameUid \<Rightarrow>
               if gameUid = [] then (Inl MissingGameUid, w)
               else
               (case getGameById (games w) gameUid of
                  None \<Rightarrow> (Inl GameNotFound, w)
                | Some game \<Rightarrow>
                    if \<not> is_verified game then (Inl GameNotVerified, w)
                    else if status game \<noteq> Created then (Inl GameNotAvailable, w)
                    else if username game = uname then (Inl CannotJoinOwnGame, w)
                    else
                    (case account_of e req of
                       Inl err \<Rightarrow> (Inl err, w)
                     | Inr account \<Rightarrow>
                         if player_address game = account then (Inl CannotJoinOwnGame, w)
                         else if \<not> transfer_built (token game) (amount game)
                         then (Inl UnknownError, w)
                         else (Inr (PostResponse (amount game) (token game) account), w)))))"

text \<open>The handler of the public games list has the same body as \<^verbatim>\<open>postJoinGame\<close>.\<close>

definition postPublicGames :: "env \<Rightarrow> world \<Rightarrow> request \<Rightarrow> (error + response) \<times> world" where
  "postPublicGames e w req = postJoinGame e w req"

definition postVerifyJoinGame :: "env \<Rightarrow> world \<Rightarrow> request \<Rightarrow> (error + response) \<times> world" where
  "postVerifyJoinGame e w req =
     (case query req ''gameUid'' of
        None \<Rightarrow> (Inl GameUidRequired, w)
      | Some gameUid \<Rightarrow>
          if gameUid = [] then (Inl GameUidRequired, w)
          else
          (case getGameById (games w) gameUid of
             None \<Rightarrow> (Inl GameNotFound, w)
           | Some game \<Rightarrow>
               if \<not> is_verified game then (Inl GameNotVerified, w)
               else if status game \<noteq> Created then (Inl GameNotAvailable, w)
               else
               (case validateUsername e (query req) of
                  Inl err \<Rightarrow> (Inl err, w)
                | Inr uname \<Rightarrow>
                    if username game = uname then (Inl CannotJoinOwnGame, w)
                    else
               (case account_of e req of
                  Inl err \<Rightarrow> (Inl err, w)
                | Inr account \<Rightarrow>
                    if player_address game = account then (Inl CannotJoinOwnGame, w)
                    else
               (case signature_of req of
                  Inl err \<Rightarrow> (Inl err, w)
                | Inr sig \<Rightarrow>
               (case confirm_signature e sig of
                  Inl err \<Rightarrow> (Inl err, w)
                | Inr _ \<Rightarrow>
               (case parsed_transaction e sig of
                  Inl err \<Rightarrow> (Inl err, w)
                | Inr parsedTx \<Rightarrow>
               (case validateSignature game parsedTx of
                  Inl err \<Rightarrow> (Inl err, w)
                | Inr _ \<Rightarrow>
               (case updateGame e (games w) (game_id game)
                       (\<lambda>g. g\<lparr>opponent_address := Some account,
                               opponent_signature := Some sig,
                               opponent_username := Some uname\<rparr>) of
                  Inl err \<Rightarrow> (Inl err, w)
                | Inr rows \<Rightarrow> (Inr CompletedAction, w\<lparr>games := rows\<rparr>))))))))))"

subsection \<open>Completing a game\<close>

text \<open>
  The key of a computed property is the text of its value: \<^verbatim>\<open>null\<close> for a field
  that the row lacks, \<^verbatim>\<open>undefined\<close> for a missing value of the program's own (the
  user id of a winner that the game export does not name).
\<close>

definition property_key :: "string option \<Rightarrow> string" where
  "property_key v = (case v of None \<Rightarrow> ''null'' | Some s \<Rightarrow> s)"

definition undefined_key :: "string option \<Rightarrow> string" where
  "undefined_key v = (case v of None \<Rightarrow> ''undefined'' | Some s \<Rightarrow> s)"

text \<open>
  The object \<^verbatim>\<open>addresses\<close> has the creator's entry, then the opponent's, and the later
  entry wins when the two keys are equal; the value of the opponent's entry is
  \<^verbatim>\<open>null\<close> when the row has no opponent address. A key that is neither is looked up
  in the prototype of the object, whose members are functions and, for
  \<^verbatim>\<open>__proto__\<close>, an object.
\<close>

datatype member = Own "string option" | Inherited | NoMember

definition Object_prototype :: "string list" where
  "Object_prototype =
     [''constructor'', ''__defineGetter__'', ''__defineSetter__'', ''hasOwnProperty'',
      ''__lookupGetter__'', ''__lookupSetter__'', ''isPrototypeOf'',
      ''propertyIsEnumerable'', ''toString'', ''valueOf'', ''__proto__'',
      ''toLocaleString'']"

definition addresses :: "Game \<Rightarrow> string \<Rightarrow> member" where
  "addresses game key =
     (if key = property_key (opponent_username game) then Own (opponent_address game)
      else if key = username game then Own (Some (player_address game))
      else if key \<in> set Object_prototype then Inherited
      else NoMember)"

text \<open>
  The two payout requests that \<^verbatim>\<open>postCompleteGame\<close> builds, with
  \<^verbatim>\<open>fee = getFee(game.amount)\<close>: the refund of a draw and the prize of a decisive
  game.
\<close>

definition draw_payout :: "env \<Rightarrow> Game \<Rightarrow> string \<Rightarrow> PayoutConfig" where
  "draw_payout e game recipient =
     \<lparr>cfg_amount = js_sub (amount game) (getFee e (amount game)), cfg_token = token game,
      cfg_recipientAddress = recipient\<rparr>"

definition winner_payout :: "env \<Rightarrow> Game \<Rightarrow> string \<Rightarrow> PayoutConfig" where
  "winner_payout e game recipient =
     \<lparr>cfg_amount = js_sub (js_mul (amount game) (Num 2)) (getFee e (amount game)),
      cfg_token = token game, cfg_recipientAddress = recipient\<rparr>"

text \<open>
  The payouts of \<^verbatim>\<open>postCompleteGame\<close>: the branch on the outcome, up to the update
  of the status. The result is the error thrown, if any, and the ledger log. The value
  that \<^verbatim>\<open>sendPayout\<close> returns is not read. An inherited member is truthy, and
  \<^verbatim>\<open>sendPayout\<close> cannot construct a key from it: the constructor throws.
\<close>

definition pay_outcome ::
  "env \<Rightarrow> (PayoutConfig \<times> bool) list \<Rightarrow> Game \<Rightarrow> game_stats \<Rightarrow> error option \<times> (PayoutConfig \<times> bool) list" where
  "pay_outcome e led game stat =
     (if stat_status stat = DRAW e then
        (case sendPayout e led (draw_payout e game (player_address game)) of
           Inl err \<Rightarrow> (Some err, led)
         | Inr (_, led1) \<Rightarrow>
             (case opponent_address game of
                None \<Rightarrow> (None, led1)
              | Some oa \<Rightarrow>
                  if oa = [] then (None, led1)
                  else
                  (case sendPayout e led1 (draw_payout e game oa) of
                     Inl err \<Rightarrow> (Some err, led1)
                   | Inr (_, led2) \<Rightarrow> (None, led2))))
      else
        (case players stat of
           None \<Rightarrow> (Some UnknownError, led)
         | Some (white, black) \<Rightarrow>
             (let winner_id = (case winner stat of
                                 None \<Rightarrow> None
                               | Some White \<Rightarrow> Some white
                               | Some Black \<Rightarrow> Some black)
              in case addresses game (undefined_key winner_id) of
                   NoMember \<Rightarrow> (Some (AddressNotFound (undefined_key winner_id)), led)
                 | Inherited \<Rightarrow> (Some UnknownError, led)
                 | Own None \<Rightarrow> (Some (AddressNotFound (undefined_key winner_id)), led)
                 | Own (Some winnerAddress) \<Rightarrow>
                     if winnerAddress = []
                     then (Some (AddressNotFound (undefined_key winner_id)), led)
                     else
                     (case sendPayout e led (winner_payout e game winnerAddress) of
                        Inl err \<Rightarrow> (Some err, led)
                      | Inr (_, led1) \<Rightarrow> (None, led1)))))"

definition postCompleteGame :: "env \<Rightarrow> world \<Rightarrow> request \<Rightarrow> (error + response) \<times> world" where
  "postCompleteGame e w req =
     (case query req ''gameUid'' of
        None \<Rightarrow> (Inl GameUidRequired, w)
      | Some gameUid \<Rightarrow>
          if gameUid = [] then (Inl GameUidRequired, w)
          else
          (case getGameById (games w) gameUid of
             None \<Rightarrow> (Inl GameNotFound, w)
           | Some game \<Rightarrow>
               if \<not> is_verified game then (Inl GameNotVerified, w)
               else if status game = Completed then (Inl AlreadyCompleted, w)
               else
               (case account_of e req of
                  Inl err \<Rightarrow> (Inl err, w)
                | Inr account \<Rightarrow>
               (case getGameStats e (game_id game) of
                  None \<Rightarrow> (Inl UnableToGetStats, w)
                | Some stat \<Rightarrow>
                    if stat_status stat \<noteq> DRAW e \<and> stat_status stat \<noteq> MATE e
                    then (Inl GameNotOver, w)
                    else
               (case pay_outcome e (ledger w) game stat of
                  (Some err, led) \<Rightarrow> (Inl err, w\<lparr>ledger := led\<rparr>)
                | (None, led) \<Rightarrow>
               (case updateGame e (games w) (game_id game) (\<lambda>g. g\<lparr>status := Completed\<rparr>) of
                  Inl err \<Rightarrow> (Inl err, w\<lparr>ledger := led\<rparr>)
                | Inr rows \<Rightarrow> (Inr CompletedAction, \<lparr>games = rows, ledger = led\<rparr>)))))))"

section \<open>The lifecycle as a transition system\<close>

datatype intent = CreateGame | VerifyCreateGame | JoinGame | PublicGames | VerifyJoinGame | CompleteGame

fun handle :: "intent \<Rightarrow> env \<Rightarrow> world \<Rightarrow> request \<Rightarrow> (error + response) \<times> world" where
  "handle CreateGame = postCreateGame"
| "handle VerifyCreateGame = postVerifyCreateGame"
| "handle JoinGame = postJoinGame"
| "handle PublicGames = postPublicGames"
| "handle VerifyJoinGame = postVerifyJoinGame"
| "handle CompleteGame = postCompleteGame"

text \<open>
  The states that the handlers can produce from the empty table, whatever the requests
  and the answers of the environment.
\<close>

inductive reachable :: "world \<Rightarrow> bool" where
  start: "reachable \<lparr>games = [], ledger = []\<rparr>"
| step: "reachable w \<Longrightarrow> handle i e w req = (r, w') \<Longrightarrow> reachable w'"

definition no_self_match :: "Game \<Rightarrow> bool" where
  "no_self_match g =
     (opponent_username g \<noteq> Some (username g) \<and> opponent_address g \<noteq> Some (player_address g))"

text \<open>An address that can be paid: a non-empty string that the key constructor accepts.\<close>

definition valid_address :: "env \<Rightarrow> string \<Rightarrow> bool" where
  "valid_address e a = (a \<noteq> [] \<and> PublicKey_toBase58 e a \<noteq> None)"

section \<open>Concrete scenarios\<close>

text \<open>
  An environment with a fee of 5 percent capped at 1, in which every profile exists,
  every non-empty string is a key, every signature is finalized and the ledger confirms
  every transfer.
\<close>

definition env0 :: env where
  "env0 = \<lparr>CHARGE_PERCENTAGE = 5, CAP_AMOUNT = 1, DRAW = ''draw'', MATE = ''mate'',
            APP_WALLET = ''EscrowWallet'',
            getProfileDetail = (\<lambda>u. True),
            PublicKey_toBase58 = (\<lambda>s. if s = [] then None else Some s),
            getSignatureStatus = (\<lambda>s. SigValue (Some Finalized)),
            getParsedTransaction = (\<lambda>s. None),
            getGameStats = (\<lambda>g. None),
            sendAndConfirmTransaction = (\<lambda>c. True),
            insert_id = Some ''u1'',
            update_refused = False\<rparr>"

definition draw_env :: env where
  "draw_env = env0\<lparr>getGameStats := (\<lambda>g. Some \<lparr>stat_status = ''draw'',
                 players = Some (''alice'', ''bob''), winner = None\<rparr>)\<rparr>"

definition mate_env :: env where
  "mate_env = env0\<lparr>getGameStats := (\<lambda>g. Some \<lparr>stat_status = ''mate'',
                 players = Some (''alice'', ''bob''), winner = Some Black\<rparr>)\<rparr>"

text \<open>The same draw, with a ledger that confirms no transfer.\<close>

definition failing_env :: env where
  "failing_env = draw_env\<lparr>sendAndConfirmTransaction := (\<lambda>c. False)\<rparr>"

text \<open>A verified game of 2 SOL that nobody has joined, and the same game joined by bob.\<close>

definition alice_game :: Game where
  "alice_game = \<lparr>id' = ''u1'', game_id = ''LRy93nnW'', username = ''alice'', amount = Num 2,
                  token = ''SOL'', player_address = ''AliceWallet'',
                  recipient_address = ''EscrowWallet'', signature = Some ''sigA'',
                  is_verified = True, is_public = True, status = Created,
                  opponent_username = None, opponent_address = None,
                  opponent_signature = None\<rparr>"

definition joined_game :: Game where
  "joined_game = alice_game\<lparr>opponent_username := Some ''bob'',
                              opponent_address := Some ''BobWallet'',
                              opponent_signature := Some ''sigB''\<rparr>"

definition complete_request :: request where
  "complete_request = \<lparr>query = [''gameUid'' \<mapsto> ''u1''], body_account = Some ''CallerWallet'',
                         body_signature = None\<rparr>"

text \<open>A payment of 2 SOL to the escrow wallet, as the first instruction of a transaction.\<close>

definition sol_payment :: ParsedTransactionWithMeta where
  "sol_payment =
     \<lparr>meta = Some False,
      instructions = [ParsedInstruction ''system'' ''transfer''
                        \<lparr>destination = Some ''EscrowWallet'', lamports = Some (Num 2000000000),
                         info_mint = None, tokenAmount = None\<rparr>]\<rparr>"

definition join_request :: request where
  "join_request = \<lparr>query = [''gameUid'' \<mapsto> ''u1'', ''username'' \<mapsto> ''bob''],
                     body_account = Some ''BobWallet'', body_signature = Some ''sigB''\<rparr>"

text \<open>
  A game of 1 USDC, and a transaction whose first instruction moves 1 BONK (100000 base
  units at 5 decimals) to the escrow wallet.
\<close>

definition usdc_game :: Game where
  "usdc_game = alice_game\<lparr>amount := Num 1, token := ''USDC''\<rparr>"

definition bonk_payment :: ParsedTransactionWithMeta where
  "bonk_payment =
     \<lparr>meta = Some False,
      instructions = [ParsedInstruction ''spl-token'' ''transferChecked''
                        \<lparr>destination = Some ''EscrowWallet'', lamports = None,
                         info_mint = Some ''DezXAZ8z7PnrnRJjz3wXBoRgixCa6xjnB7YaB1pPB263'',
                         tokenAmount = Some (Num 100000)\<rparr>]\<rparr>"

text \<open>
  A transaction whose first instruction is no transfer, followed by a transfer of 0.5 SOL
  to another wallet.
\<close>

definition other_payment :: ParsedTransactionWithMeta where
  "other_payment =
     \<lparr>meta = Some False,
      instructions = [PartiallyDecodedInstruction,
                      ParsedInstruction ''system'' ''transfer''
                        \<lparr>destination = Some ''MalloryWallet'', lamports = Some (Num 500000000),
                         info_mint = None, tokenAmount = None\<rparr>]\<rparr>"

text \<open>
  A transaction whose first instruction is a token \<^verbatim>\<open>transfer\<close> (not
  \<^verbatim>\<open>transferChecked\<close>) to the token account of another wallet.
\<close>

definition spl_transfer_payment :: ParsedTransactionWithMeta where
  "spl_transfer_payment =
     \<lparr>meta = Some False,
      instructions = [ParsedInstruction ''spl-token'' ''transfer''
                        \<lparr>destination = Some ''MalloryTokenAccount'', lamports = None,
                         info_mint = None, tokenAmount = None\<rparr>]\<rparr>"

text \<open>A create request whose amount is not a number.\<close>

definition create_request :: request where
  "create_request =
     \<lparr>query = [''gameId'' \<mapsto> ''LRy93nnW'', ''username'' \<mapsto> ''alice'',
               ''amount'' \<mapsto> ''abc'', ''token'' \<mapsto> ''SOL''],
      body_account = Some ''AliceWallet'', body_signature = None\<rparr>"

text \<open>
  A verified game whose creator has the user name \<^verbatim>\<open>null\<close> and which nobody has
  joined; the creator wins it with the white pieces.
\<close>

definition null_game :: Game where
  "null_game = alice_game\<lparr>username := ''null''\<rparr>"

definition null_env :: env where
  "null_env = env0\<lparr>getGameStats := (\<lambda>g. Some \<lparr>stat_status = ''mate'',
                 players = Some (''null'', ''carol''), winner = Some White\<rparr>)\<rparr>"

text \<open>
  The decisive game of alice and bob with a store that refuses the update; and a second
  row for the same game of the chess platform, as a second create request leaves it.
\<close>

definition refusing_env :: env where
  "refusing_env = mate_env\<lparr>update_refused := True\<rparr>"

definition twin_game :: Game where
  "twin_game = alice_game\<lparr>id' := ''u2'', signature := None, is_verified := False\<rparr>"

text \<open>The environment in which the ledger shows the payment of 2 SOL for every signature.\<close>

definition paid_env :: env where
  "paid_env = env0\<lparr>getParsedTransaction := (\<lambda>s. Some sol_payment)\<rparr>"

text \<open>The requests by which alice creates the game of 2 SOL and has her payment verified.\<close>

definition create_ok_request :: request where
  "create_ok_request =
     \<lparr>query = [''gameId'' \<mapsto> ''LRy93nnW'', ''username'' \<mapsto> ''alice'',
               ''amount'' \<mapsto> ''2'', ''token'' \<mapsto> ''SOL'', ''public'' \<mapsto> ''true''],
      body_account = Some ''AliceWallet'', body_signature = None\<rparr>"

definition verify_create_request :: request where
  "verify_create_request =
     \<lparr>query = [''gameId'' \<mapsto> ''LRy93nnW''],
      body_account = Some ''AliceWallet'', body_signature = Some ''sigA''\<rparr>"

text \<open>Alice trying to join her own game, from another wallet.\<close>

definition self_join_request :: request where
  "self_join_request = \<lparr>query = [''gameUid'' \<mapsto> ''u1'', ''username'' \<mapsto> ''alice''],
                          body_account = Some ''OtherWallet'', body_signature = Some ''sigC''\<rparr>"

section \<open>Basic facts\<close>

lemmas token_defs =
  TOKENS_SOL_def TOKENS_USDC_def TOKENS_BONK_def TOKENS_values_def SPL_MAP_def SPL_MAP_entries_def

lemmas round_defs =
  fl_def rd_def floor_log2_def round_even_def pow2_def compute_bitlen LAMPORTS_PER_SOL_def

lemmas parse_defs =
  parseFloat_def signed_digits_def js_whitespace_def is_digit_def digits_val_def pow10_def
  exponent_part_def

lemmas step_defs =
  account_of_def signature_of_def confirm_signature_def parsed_transaction_def
  validateUsername_def getGame_def getGameById_def single_def updateGame_def addGame_def
  transfer_built_def truthy_def

subsection \<open>Rounding\<close>

lemma pow2_pos: "0 < pow2 e"
  by (simp add: pow2_def)

lemma pow2_powr: "pow2 e = 2 powr (of_int e)"
  by (simp add: pow2_def powr_int)

text \<open>The exponent that \<open>rd\<close> computes is the integer part of the binary logarithm.\<close>

lemma floor_log2_eq:
  assumes "0 < x"
  shows "floor_log2 x = \<lfloor>log 2 x\<rfloor>"
proof (cases "1 \<le> x")
  case True
  define m where "m = \<lfloor>x\<rfloor>"
  have m: "0 < m" using True by (simp add: m_def)
  define b where "b = bitlen m"
  have b1: "1 \<le> b" using m by (simp add: b_def bitlen_alt_def)
  have bnd: "2 ^ nat (b - 1) \<le> m \<and> m < 2 ^ nat b"
    unfolding b_def using m by (rule bitlen_bounds)
  have lo: "pow2 (b - 1) \<le> x"
  proof -
    have "real_of_int (2 ^ nat (b - 1)) \<le> real_of_int m" using bnd by linarith
    also have "\<dots> \<le> x" by (simp add: m_def)
    finally show ?thesis using b1 by (simp add: pow2_def)
  qed
  have hi: "x < pow2 b"
  proof -
    have "m + 1 \<le> 2 ^ nat b" using bnd by linarith
    then have "real_of_int (m + 1) \<le> real_of_int (2 ^ nat b)" by linarith
    moreover have "x < real_of_int (m + 1)" by (simp add: m_def)
    ultimately show ?thesis using b1 by (simp add: pow2_def)
  qed
  have "\<lfloor>log 2 x\<rfloor> = b - 1"
    using assms lo hi by (simp add: floor_log_eq_powr_iff pow2_powr)
  then show ?thesis using True by (simp add: floor_log2_def b_def m_def)
next
  case False
  define y where "y = 1 / x"
  have y1: "1 < y" using assms False by (simp add: y_def)
  define m where "m = \<lceil>y\<rceil> - 1"
  have m: "0 < m" using y1 by (simp add: m_def)
  define b where "b = bitlen m"
  have b1: "1 \<le> b" using m by (simp add: b_def bitlen_alt_def)
  have bnd: "2 ^ nat (b - 1) \<le> m \<and> m < 2 ^ nat b"
    unfolding b_def using m by (rule bitlen_bounds)
  have my: "real_of_int m < y" by (simp add: m_def) linarith
  have ym: "y \<le> real_of_int (m + 1)" by (simp add: m_def)
  have ylo: "2 ^ nat (b - 1) < y"
  proof -
    have "real_of_int (2 ^ nat (b - 1)) \<le> real_of_int m" using bnd by linarith
    then have "(2::real) ^ nat (b - 1) \<le> real_of_int m" by simp
    then show ?thesis using my by linarith
  qed
  have yhi: "y \<le> 2 ^ nat b"
  proof -
    have "m + 1 \<le> 2 ^ nat b" using bnd by linarith
    then have "real_of_int (m + 1) \<le> real_of_int (2 ^ nat b)" by linarith
    then have "real_of_int (m + 1) \<le> (2::real) ^ nat b" by simp
    then show ?thesis using ym by linarith
  qed
  have x: "x = 1 / y" using assms by (simp add: y_def)
  have lo: "pow2 (- b) \<le> x"
    using yhi y1 b1 unfolding x by (simp add: pow2_def field_simps)
  have hi: "x < pow2 (- b + 1)"
  proof (cases "b = 1")
    case True
    then show ?thesis using y1 unfolding x by (simp add: pow2_def)
  next
    case False
    then have "nat (b - 1) = nat (- (- b + 1))" and "\<not> 0 \<le> - b + 1" using b1 by simp_all
    then show ?thesis using ylo y1 unfolding x by (simp add: pow2_def field_simps)
  qed
  have "\<lfloor>log 2 x\<rfloor> = - b"
    using assms lo hi by (simp add: floor_log_eq_powr_iff pow2_powr)
  then show ?thesis using False by (simp add: floor_log2_def b_def m_def y_def)
qed

lemma round_even_nonneg: "0 \<le> m \<Longrightarrow> 0 \<le> round_even m"
  by (auto simp: round_even_def Let_def)

lemma rd_nonneg:
  assumes "0 \<le> x"
  shows "0 \<le> rd x"
proof (cases "x = 0")
  case True
  then show ?thesis by (simp add: rd_def)
next
  case False
  define e where "e = max (floor_log2 \<bar>x\<bar> - 52) (- 1074)"
  have "0 \<le> \<bar>x\<bar> / pow2 e"
    using pow2_pos [of e] by simp
  then have "0 \<le> round_even (\<bar>x\<bar> / pow2 e)"
    by (rule round_even_nonneg)
  then have "0 \<le> of_int (round_even (\<bar>x\<bar> / pow2 e)) * pow2 e"
    using pow2_pos [of e] by simp
  moreover have "sgn x = 1"
    using assms False by simp
  ultimately show ?thesis
    using False by (simp add: rd_def Let_def e_def)
qed

text \<open>The result of an operation on a non-negative exact value is not negative.\<close>

lemma fl_nonneg:
  assumes "0 \<le> x"
  shows "fl x = PInf \<or> (\<exists>y. fl x = Num y \<and> 0 \<le> y)"
  using assms rd_nonneg [of x] by (auto simp: fl_def)

text \<open>Some doubles: 0.1, 0.05, 1.9 and 3.9 are not exact, small integers are.\<close>

lemma rd_tenth: "rd (1 / 10) = 3602879701896397 / 2 ^ 55"
  by (simp add: round_defs)

lemma fl_small:
  "fl 1 = Num 1" "fl 2 = Num 2" "fl 4 = Num 4"
  "fl 2000000000 = Num 2000000000"
  by (simp_all add: round_defs)

text \<open>
  The fee of a wager of 2 at 5 percent is the double 0.1, the refund of a draw the double
  1.9 and the prize of a decisive game the double 3.9.
\<close>

lemma getFee_of_2:
  assumes "CHARGE_PERCENTAGE e = 5" and "CAP_AMOUNT e = 1"
  shows "getFee e (Num 2) = fl (1 / 10)"
  using assms by (simp add: getFee_def round_defs)

lemma draw_payout_of_2:
  assumes "CHARGE_PERCENTAGE e = 5" and "CAP_AMOUNT e = 1" and "amount game = Num 2"
  shows "draw_payout e game a
           = \<lparr>cfg_amount = fl (19 / 10), cfg_token = token game, cfg_recipientAddress = a\<rparr>"
  using assms by (simp add: draw_payout_def getFee_def round_defs)

lemma winner_payout_of_2:
  assumes "CHARGE_PERCENTAGE e = 5" and "CAP_AMOUNT e = 1" and "amount game = Num 2"
  shows "winner_payout e game a
           = \<lparr>cfg_amount = fl (39 / 10), cfg_token = token game, cfg_recipientAddress = a\<rparr>"
  using assms by (simp add: winner_payout_def getFee_def round_defs)

text \<open>
  In lamports both are whole numbers: 1.9 and 3.9 times \<open>10\<^sup>9\<close> round to 1900000000 and
  3900000000.
\<close>

lemma payout_lamports:
  "js_mul (fl (19 / 10)) LAMPORTS_PER_SOL = Num 1900000000"
  "js_mul (fl (39 / 10)) LAMPORTS_PER_SOL = Num 3900000000"
  by (simp_all add: round_defs)

subsection \<open>The store\<close>

lemma single_map: "single (map f xs) = map_option f (single xs)"
  by (simp add: single_def split: list.splits)

lemma single_mem: "single xs = Some x \<Longrightarrow> x \<in> set xs"
  by (auto simp: single_def split: list.splits)

lemma single_unique:
  assumes "single (filter P xs) \<noteq> None" and "x \<in> set xs" and "P x" and "y \<in> set xs" and "P y"
  shows "x = y"
proof -
  from assms(1) obtain z where z: "filter P xs = [z]"
    by (auto simp: single_def split: list.splits)
  have "x \<in> set (filter P xs)" and "y \<in> set (filter P xs)"
    using assms by simp_all
  with z show ?thesis by simp
qed

lemma getGameById_map:
  assumes "\<And>g. id' (f g) = id' g"
  shows "getGameById (map f rows) i = map_option f (getGameById rows i)"
proof -
  have "filter (\<lambda>g. id' g = i) (map f rows) = map f (filter (\<lambda>g. id' g = i) rows)"
    by (simp add: filter_map comp_def assms)
  then show ?thesis by (simp add: getGameById_def single_map)
qed

lemma getGameById_mem:
  assumes "getGameById rows i = Some g"
  shows "g \<in> set rows" and "id' g = i"
proof -
  from assms have "g \<in> set (filter (\<lambda>g. id' g = i) rows)"
    unfolding getGameById_def by (rule single_mem)
  then show "g \<in> set rows" and "id' g = i" by simp_all
qed

lemma updateGame_rows:
  assumes "updateGame e rows gid patch = Inr rows'"
  shows "rows' = map (\<lambda>g. if game_id g = gid then patch g else g) rows"
    and "single (filter (\<lambda>g. game_id g = gid) rows) \<noteq> None"
  using assms by (auto simp: updateGame_def split: if_splits)

lemma updateGame_preserves:
  assumes upd: "updateGame e rows gid patch = Inr rows'"
      and inv: "\<forall>g\<in>set rows. P g"
      and patch: "\<And>g. g \<in> set rows \<Longrightarrow> game_id g = gid \<Longrightarrow> P g \<Longrightarrow> P (patch g)"
  shows "\<forall>g\<in>set rows'. P g"
proof -
  have "rows' = map (\<lambda>g. if game_id g = gid then patch g else g) rows"
    using upd by (rule updateGame_rows)
  then show ?thesis using inv patch by auto
qed

lemma sendPayout_valid:
  "PublicKey_toBase58 e (cfg_recipientAddress c) \<noteq> None
   \<Longrightarrow> sendPayout e led c = Inr (try_block e c, led @ [logged e c])"
  by (auto simp: sendPayout_def split: option.splits)

lemma draw_payout_recipient [simp]: "cfg_recipientAddress (draw_payout e game a) = a"
  by (simp add: draw_payout_def)

lemma winner_payout_recipient [simp]: "cfg_recipientAddress (winner_payout e game a) = a"
  by (simp add: winner_payout_def)

section \<open>The fee\<close>

text \<open>
  The fee is not always the smaller of \<open>w * CHARGE_PERCENTAGE / 100\<close> and
  \<open>CAP_AMOUNT\<close>. The code multiplies the wager by the quotient
  \<^verbatim>\<open>CHARGE_PERCENTAGE / 100\<close>, and each operation rounds. For a wager of 3 at 5 percent
  it returns 0.15000000000000002, the double above the double 0.15 that
  \<^verbatim>\<open>3 * 5 / 100\<close> gives, and neither is the real number 3/20.
\<close>

theorem getFee_rounds_quotient_first:
  "getFee env0 (Num 3) = Num (5404319552844596 / 2 ^ 55)
   \<and> js_min (js_div (js_mul (Num 3) (Num (CHARGE_PERCENTAGE env0))) (Num 100))
             (Num (CAP_AMOUNT env0))
       = Num (5404319552844595 / 2 ^ 55)
   \<and> getFee env0 (Num 3)
       \<noteq> js_min (js_div (js_mul (Num 3) (Num (CHARGE_PERCENTAGE env0))) (Num 100))
                (Num (CAP_AMOUNT env0))
   \<and> getFee env0 (Num 3)
       \<noteq> Num (min (3 * CHARGE_PERCENTAGE env0 / 100) (CAP_AMOUNT env0))"
  by (simp add: getFee_def env0_def round_defs)

text \<open>
  C6, as the code has it. For every non-negative wager amount \<open>w\<close>, the fee that
  \<^verbatim>\<open>getFee\<close> computes is the smaller of \<open>w\<close> times the quotient
  \<open>CHARGE_PERCENTAGE / 100\<close> and \<open>CAP_AMOUNT\<close>, the quotient and the product each rounded
  to a double; it is not negative and not above \<open>CAP_AMOUNT\<close>. The two constants are those
  of the environment and are taken to be non-negative and finite.
\<close>

theorem getFee_min_cap:
  assumes "0 \<le> w" and "0 \<le> CHARGE_PERCENTAGE e" and "CHARGE_PERCENTAGE e \<le> MAX_VALUE"
      and "0 \<le> CAP_AMOUNT e"
  shows "getFee e (Num w)
           = js_min (js_mul (Num w) (Num (rd (CHARGE_PERCENTAGE e / 100)))) (Num (CAP_AMOUNT e))
         \<and> js_le (Num 0) (getFee e (Num w))
         \<and> js_le (getFee e (Num w)) (Num (CAP_AMOUNT e))"
proof -
  define r where "r = rd (CHARGE_PERCENTAGE e / 100)"
  have "CHARGE_PERCENTAGE e / 100 \<le> CHARGE_PERCENTAGE e"
    using assms(2) by simp
  also have "\<dots> < 2 ^ 1024 - 2 ^ 970"
    using assms(3) by (simp add: MAX_VALUE_def)
  finally have "\<bar>CHARGE_PERCENTAGE e / 100\<bar> < 2 ^ 1024 - 2 ^ 970"
    using assms(2) by simp
  then have quotient: "js_div (Num (CHARGE_PERCENTAGE e)) (Num 100) = Num r"
    by (simp add: fl_def r_def)
  have r0: "0 \<le> r"
    unfolding r_def using assms(2) by (intro rd_nonneg) simp
  have fee: "getFee e (Num w) = js_min (js_mul (Num w) (Num r)) (Num (CAP_AMOUNT e))"
    unfolding getFee_def Let_def quotient by (rule refl)
  have "0 \<le> w * r" using assms(1) r0 by simp
  then have "fl (w * r) = PInf \<or> (\<exists>y. fl (w * r) = Num y \<and> 0 \<le> y)"
    by (rule fl_nonneg)
  then have "js_le (Num 0) (js_min (js_mul (Num w) (Num r)) (Num (CAP_AMOUNT e)))
             \<and> js_le (js_min (js_mul (Num w) (Num r)) (Num (CAP_AMOUNT e))) (Num (CAP_AMOUNT e))"
    using assms(4) by auto
  with fee show ?thesis unfolding r_def by simp
qed

theorem getFee_min_cap_witness:
  "(0::real) \<le> 3 \<and> 0 \<le> CHARGE_PERCENTAGE env0 \<and> CHARGE_PERCENTAGE env0 \<le> MAX_VALUE
   \<and> 0 \<le> CAP_AMOUNT env0
   \<and> getFee env0 (Num 3) = js_min (js_mul (Num 3) (Num (rd (5 / 100)))) (Num 1)
   \<and> js_le (Num 0) (getFee env0 (Num 3)) \<and> js_le (getFee env0 (Num 3)) (Num 1)"
proof -
  have h: "(0::real) \<le> 3" "0 \<le> CHARGE_PERCENTAGE env0" "CHARGE_PERCENTAGE env0 \<le> MAX_VALUE"
    "0 \<le> CAP_AMOUNT env0"
    by (simp_all add: env0_def MAX_VALUE_def)
  have e: "CHARGE_PERCENTAGE env0 = 5" "CAP_AMOUNT env0 = 1"
    by (simp_all add: env0_def)
  show ?thesis
    using h getFee_min_cap [OF h] unfolding e by blast
qed

section \<open>Payment verification\<close>

text \<open>
  What \<^verbatim>\<open>validateSignature\<close> does check: when the first instruction of a SOL game's
  transaction is a system transfer, a destination other than the game's recipient or an
  amount other than the game's is refused.
\<close>

lemma validateSignature_transfer_mismatch:
  assumes "token game = TOKENS_SOL"
      and "instructions parsedTx = ParsedInstruction ''system'' ''transfer'' pinfo # rest"
      and "destination pinfo \<noteq> Some (recipient_address game)
           \<or> \<not> js_eq (js_div (num_of (lamports pinfo)) LAMPORTS_PER_SOL) (amount game)"
  shows "validateSignature game parsedTx = Inl DetailsMismatch"
  using assms by (auto simp: validateSignature_def)

text \<open>
  C1 says that a transaction whose first instruction mismatches the expected recipient,
  amount or mint always fails the verification. The code does not do that. The check is
  made only when the first instruction has the expected shape, a system \<^verbatim>\<open>transfer\<close>
  for SOL and a \<^verbatim>\<open>transferChecked\<close> for a token, and there is no other branch: the
  game of 2 SOL accepts a transaction that pays half a SOL to another wallet behind an
  unrelated first instruction, and the game of 1 USDC accepts a token \<^verbatim>\<open>transfer\<close>
  to another account. And the mint of a \<^verbatim>\<open>transferChecked\<close> instruction is looked up
  among all registered mints, not compared with the mint of the game's token, the amount
  being scaled by the decimals of the mint found: the game of 1 USDC accepts an
  instruction that moves 1 BONK.
\<close>

theorem validateSignature_accepts_mismatch:
  "token alice_game = TOKENS_SOL \<and> amount alice_game = Num 2
   \<and> validateSignature alice_game other_payment = Inr ()
   \<and> token usdc_game = TOKENS_USDC \<and> amount usdc_game = Num 1
   \<and> validateSignature usdc_game spl_transfer_payment = Inr ()
   \<and> SPL_MAP TOKENS_BONK
        = Some \<lparr>mint = ''DezXAZ8z7PnrnRJjz3wXBoRgixCa6xjnB7YaB1pPB263'', decimals = 5\<rparr>
   \<and> validateSignature usdc_game bonk_payment = Inr ()"
  by (simp add: validateSignature_def alice_game_def usdc_game_def other_payment_def
        spl_transfer_payment_def bonk_payment_def token_defs js_eq_def fl_small)

section \<open>Creating a game\<close>

lemma parseFloat_abc: "parseFloat ''abc'' = NaN"
  by (simp add: parse_defs)

text \<open>
  C10 says that a create request whose amount is not a positive number fails with a
  validation error and creates no record. The code compares the parsed amount with
  \<^verbatim>\<open>amount <= 0\<close> only; \<^verbatim>\<open>parseFloat\<close> of a text that is no number is \<open>NaN\<close>, the
  comparison is false, and the validation returns the amount \<open>NaN\<close>. The handler
  inserts the record with that amount. Only then does it build the transfer, which
  throws on an amount that is no integer number of lamports: the answer is "An unknown
  error occurred", and the record stays in the table.
\<close>

theorem postCreateGame_accepts_NaN:
  "query create_request ''amount'' = Some ''abc''
   \<and> validatedQueryParams env0 (query create_request)
       = Inr \<lparr>p_amount = NaN, p_username = ''alice'', p_gameId = ''LRy93nnW'',
              p_token = ''SOL'', p_isPublic = False\<rparr>
   \<and> postCreateGame env0 \<lparr>games = [], ledger = []\<rparr> create_request
       = (Inl UnknownError,
          \<lparr>games = [\<lparr>id' = ''u1'', game_id = ''LRy93nnW'', username = ''alice'',
                      amount = NaN, token = ''SOL'', player_address = ''AliceWallet'',
                      recipient_address = ''EscrowWallet'', signature = None,
                      is_verified = False, is_public = False, status = Created,
                      opponent_username = None, opponent_address = None,
                      opponent_signature = None\<rparr>],
            ledger = []\<rparr>)"
  by (simp add: postCreateGame_def validatedQueryParams_def step_defs parseFloat_abc
        env0_def create_request_def token_defs LAMPORTS_PER_SOL_def)

text \<open>What the validation does refuse: an amount that parses to zero or less.\<close>

lemma validatedQueryParams_amount_positive:
  assumes "validatedQueryParams e q = Inr p"
  shows "\<not> js_le (p_amount p) (Num 0) \<and> p_token p \<in> set TOKENS_values"
  using assms
  by (auto simp: validatedQueryParams_def Let_def split: option.splits if_splits)

section \<open>Joining a game\<close>

text \<open>
  C9 says that a successful verify-join moves the record from \<^verbatim>\<open>created\<close> to the
  matched state. The code writes the opponent's address, signature and user name and
  nothing else: the status stays \<^verbatim>\<open>created\<close>, and no handler ever writes
  \<^verbatim>\<open>matched\<close>.
\<close>

theorem postVerifyJoinGame_keeps_status:
  "postVerifyJoinGame paid_env \<lparr>games = [alice_game], ledger = []\<rparr> join_request
     = (Inr CompletedAction, \<lparr>games = [joined_game], ledger = []\<rparr>)
   \<and> opponent_username joined_game = Some ''bob''
   \<and> opponent_address joined_game = Some ''BobWallet''
   \<and> opponent_signature joined_game = Some ''sigB''
   \<and> status alice_game = Created \<and> status joined_game = Created"
  by (simp add: postVerifyJoinGame_def validateSignature_def step_defs js_eq_def
        LAMPORTS_PER_SOL_def num_of_def fl_small paid_env_def env0_def sol_payment_def
        alice_game_def joined_game_def join_request_def token_defs)

text \<open>The same for every successful verify-join: no status changes.\<close>

lemma postVerifyJoinGame_status:
  assumes "postVerifyJoinGame e w req = (r, w')"
  shows "map status (games w') = map status (games w)"
proof (cases "games w' = games w")
  case True
  then show ?thesis by simp
next
  case False
  with assms obtain gid patch where
    upd: "updateGame e (games w) gid patch = Inr (games w')"
    and patch: "\<forall>g. status (patch g) = status g"
    unfolding postVerifyJoinGame_def
    by (fastforce split: sum.splits option.splits if_splits)
  have "games w' = map (\<lambda>g. if game_id g = gid then patch g else g) (games w)"
    using upd by (rule updateGame_rows)
  then show ?thesis using patch by (simp add: comp_def if_distrib cong: if_cong)
qed

text \<open>
  C7. For a game that is not verified, join, verify-join and complete fail and leave the
  table and the ledger as they were. The error is "Game is not verified", except that
  join validates the user name of the request first and reports that error when the name
  is missing or unknown.
\<close>

theorem verification_gate:
  assumes "query req ''gameUid'' = Some uid" and "uid \<noteq> []"
      and "getGameById (games w) uid = Some game" and "\<not> is_verified game"
  shows "postJoinGame e w req
           = (Inl (case validateUsername e (query req) of
                     Inl err \<Rightarrow> err | Inr u \<Rightarrow> GameNotVerified), w)
         \<and> postVerifyJoinGame e w req = (Inl GameNotVerified, w)
         \<and> postCompleteGame e w req = (Inl GameNotVerified, w)"
  using assms
  by (simp add: postJoinGame_def postVerifyJoinGame_def postCompleteGame_def split: sum.splits)

theorem verification_gate_witness:
  "query join_request ''gameUid'' = Some ''u1''
   \<and> getGameById [alice_game\<lparr>is_verified := False\<rparr>] ''u1'' = Some (alice_game\<lparr>is_verified := False\<rparr>)
   \<and> \<not> is_verified (alice_game\<lparr>is_verified := False\<rparr>)
   \<and> postJoinGame env0 \<lparr>games = [alice_game\<lparr>is_verified := False\<rparr>], ledger = []\<rparr> join_request
       = (Inl GameNotVerified, \<lparr>games = [alice_game\<lparr>is_verified := False\<rparr>], ledger = []\<rparr>)
   \<and> postVerifyJoinGame env0 \<lparr>games = [alice_game\<lparr>is_verified := False\<rparr>], ledger = []\<rparr> join_request
       = (Inl GameNotVerified, \<lparr>games = [alice_game\<lparr>is_verified := False\<rparr>], ledger = []\<rparr>)
   \<and> postCompleteGame env0 \<lparr>games = [alice_game\<lparr>is_verified := False\<rparr>], ledger = []\<rparr> join_request
       = (Inl GameNotVerified, \<lparr>games = [alice_game\<lparr>is_verified := False\<rparr>], ledger = []\<rparr>)"
proof -
  let ?g = "alice_game\<lparr>is_verified := False\<rparr>"
  let ?w = "\<lparr>games = [?g], ledger = []\<rparr>"
  have q: "query join_request ''gameUid'' = Some ''u1''" and n: "''u1'' \<noteq> []"
    by (simp_all add: join_request_def)
  have g: "getGameById (games ?w) ''u1'' = Some ?g"
    by (simp add: getGameById_def single_def alice_game_def)
  have v: "\<not> is_verified ?g" by simp
  have u: "validateUsername env0 (query join_request) = Inr ''bob''"
    by (simp add: validateUsername_def join_request_def env0_def)
  show ?thesis
    using verification_gate [OF q n g v, of env0] q g u by simp
qed

lemma join_self_fails:
  assumes "query req ''gameUid'' = Some uid" and "getGameById (games w) uid = Some game"
      and "query req ''username'' = Some (username game)
           \<or> account_of e req = Inr (player_address game)"
  shows "\<exists>err. postJoinGame e w req = (Inl err, w)
           \<and> (validateUsername e (query req) \<noteq> Inl err \<and> uid \<noteq> []
                 \<and> is_verified game \<and> status game = Created
               \<longrightarrow> err = CannotJoinOwnGame)"
  using assms
  by (auto simp: postJoinGame_def validateUsername_def split: sum.splits option.splits if_splits)

lemma verify_join_self_fails:
  assumes "query req ''gameUid'' = Some uid" and "getGameById (games w) uid = Some game"
      and "query req ''username'' = Some (username game)
           \<or> account_of e req = Inr (player_address game)"
  shows "\<exists>err. postVerifyJoinGame e w req = (Inl err, w)
           \<and> (validateUsername e (query req) \<noteq> Inl err \<and> uid \<noteq> []
                 \<and> is_verified game \<and> status game = Created
               \<longrightarrow> err = CannotJoinOwnGame)"
  using assms
  by (auto simp: postVerifyJoinGame_def validateUsername_def split: sum.splits option.splits if_splits)

lemma create_inv:
  assumes "postCreateGame e w req = (r, w')" and "\<forall>g\<in>set (games w). no_self_match g"
  shows "\<forall>g\<in>set (games w'). no_self_match g"
  using assms
  by (auto simp: postCreateGame_def addGame_def no_self_match_def
           split: sum.splits option.splits if_splits)

lemma verify_create_inv:
  assumes "postVerifyCreateGame e w req = (r, w')" and inv: "\<forall>g\<in>set (games w). no_self_match g"
  shows "\<forall>g\<in>set (games w'). no_self_match g"
proof (cases "games w' = games w")
  case True
  then show ?thesis using inv by simp
next
  case False
  with assms(1) obtain gid sig where
    "updateGame e (games w) gid (\<lambda>g. g\<lparr>signature := Some sig, is_verified := True\<rparr>) = Inr (games w')"
    unfolding postVerifyCreateGame_def
    by (auto split: sum.splits option.splits if_splits)
  then show ?thesis using inv
    by (rule updateGame_preserves) (simp add: no_self_match_def)
qed

lemma join_unchanged:
  assumes "postJoinGame e w req = (r, w')"
  shows "w' = w"
  using assms
  by (auto simp: postJoinGame_def split: sum.splits option.splits if_splits)

lemma complete_inv:
  assumes "postCompleteGame e w req = (r, w')" and inv: "\<forall>g\<in>set (games w). no_self_match g"
  shows "\<forall>g\<in>set (games w'). no_self_match g"
proof (cases "games w' = games w")
  case True
  then show ?thesis using inv by simp
next
  case False
  with assms(1) obtain gid where
    "updateGame e (games w) gid (\<lambda>g. g\<lparr>status := Completed\<rparr>) = Inr (games w')"
    unfolding postCompleteGame_def
    by (auto split: sum.splits option.splits if_splits prod.splits)
  then show ?thesis using inv
    by (rule updateGame_preserves) (simp add: no_self_match_def)
qed

text \<open>
  The update of verify-join selects one row, which is the game that was read and
  checked against the joiner.
\<close>

lemma verify_join_inv:
  assumes "postVerifyJoinGame e w req = (r, w')" and inv: "\<forall>g\<in>set (games w). no_self_match g"
  shows "\<forall>g\<in>set (games w'). no_self_match g"
proof (cases "games w' = games w")
  case True
  then show ?thesis using inv by simp
next
  case False
  with assms(1) obtain uid game uname account sig where
    game: "getGameById (games w) uid = Some game"
    and other: "username game \<noteq> uname" "player_address game \<noteq> account"
    and upd: "updateGame e (games w) (game_id game)
            (\<lambda>g. g\<lparr>opponent_address := Some account, opponent_signature := Some sig,
                    opponent_username := Some uname\<rparr>) = Inr (games w')"
    unfolding postVerifyJoinGame_def
    by (auto split: sum.splits option.splits if_splits)
  from game have mem: "game \<in> set (games w)" by (rule getGameById_mem)
  from upd have one: "single (filter (\<lambda>g. game_id g = game_id game) (games w)) \<noteq> None"
    by (rule updateGame_rows)
  show ?thesis using upd inv
  proof (rule updateGame_preserves)
    fix g assume "g \<in> set (games w)" and "game_id g = game_id game"
    then have "g = game"
      using single_unique [OF one, of g game] mem by simp
    with other show "no_self_match (g\<lparr>opponent_address := Some account,
                       opponent_signature := Some sig, opponent_username := Some uname\<rparr>)"
      by (simp add: no_self_match_def)
  qed
qed

lemma handle_inv:
  assumes "handle i e w req = (r, w')" and "\<forall>g\<in>set (games w). no_self_match g"
  shows "\<forall>g\<in>set (games w'). no_self_match g"
proof (cases i)
  case CreateGame
  with assms show ?thesis by (simp add: create_inv)
next
  case VerifyCreateGame
  with assms show ?thesis by (simp add: verify_create_inv)
next
  case JoinGame
  with assms show ?thesis using join_unchanged [of e w req r w'] by simp
next
  case PublicGames
  with assms show ?thesis using join_unchanged [of e w req r w'] by (simp add: postPublicGames_def)
next
  case VerifyJoinGame
  with assms show ?thesis by (simp add: verify_join_inv)
next
  case CompleteGame
  with assms show ?thesis by (simp add: complete_inv)
qed

lemma reachable_inv: "reachable w \<Longrightarrow> \<forall>g\<in>set (games w). no_self_match g"
proof (induction rule: reachable.induct)
  case start
  show ?case by simp
next
  case (step w i e req r w')
  from step.hyps(2) step.IH show ?case by (rule handle_inv)
qed

text \<open>
  C8. A join by the creator's user name or from the creator's address fails and changes
  nothing, in \<^verbatim>\<open>postJoinGame\<close> and again in \<^verbatim>\<open>postVerifyJoinGame\<close>; when the request
  passes the checks before it, the error is "You cannot join your own game". So no row
  that the handlers can produce has the creator's user name or address as its opponent's.
  User names and addresses are compared as strings.
\<close>

theorem no_self_match_always:
  "(query req ''gameUid'' = Some uid \<and> getGameById (games w) uid = Some game
      \<and> (query req ''username'' = Some (username game)
          \<or> account_of e req = Inr (player_address game))
    \<longrightarrow> (\<exists>err. postJoinGame e w req = (Inl err, w)
            \<and> (validateUsername e (query req) \<noteq> Inl err \<and> uid \<noteq> []
                  \<and> is_verified game \<and> status game = Created
                \<longrightarrow> err = CannotJoinOwnGame))
        \<and> (\<exists>err. postVerifyJoinGame e w req = (Inl err, w)
            \<and> (validateUsername e (query req) \<noteq> Inl err \<and> uid \<noteq> []
                  \<and> is_verified game \<and> status game = Created
                \<longrightarrow> err = CannotJoinOwnGame)))
   \<and> (reachable w \<longrightarrow> (\<forall>g\<in>set (games w). no_self_match g))"
  using join_self_fails [of req uid w game e] verify_join_self_fails [of req uid w game e]
    reachable_inv [of w]
  by blast

text \<open>
  The witness: the table that holds the game of alice joined by bob is produced by a
  create, a verify-create and a verify-join; there alice cannot join her own game, and
  the opponent of the row is not its creator.
\<close>

lemma reachable_joined: "reachable \<lparr>games = [joined_game], ledger = []\<rparr>"
proof -
  let ?g0 = "alice_game\<lparr>signature := None, is_verified := False\<rparr>"
  have p2: "parseFloat ''2'' = Num 2"
    by (simp add: parse_defs fl_small)
  have s1: "handle CreateGame env0 \<lparr>games = [], ledger = []\<rparr> create_ok_request
              = (Inr (PostResponse (Num 2) ''SOL'' ''AliceWallet''), \<lparr>games = [?g0], ledger = []\<rparr>)"
    by (simp add: postCreateGame_def validatedQueryParams_def step_defs p2
          env0_def alice_game_def create_ok_request_def token_defs
          LAMPORTS_PER_SOL_def fl_small)
  have s2: "handle VerifyCreateGame paid_env \<lparr>games = [?g0], ledger = []\<rparr> verify_create_request
              = (Inr CompletedAction, \<lparr>games = [alice_game], ledger = []\<rparr>)"
    by (simp add: postVerifyCreateGame_def validateSignature_def step_defs js_eq_def
          LAMPORTS_PER_SOL_def num_of_def fl_small paid_env_def env0_def sol_payment_def
          alice_game_def verify_create_request_def token_defs)
  have s3: "handle VerifyJoinGame paid_env \<lparr>games = [alice_game], ledger = []\<rparr> join_request
              = (Inr CompletedAction, \<lparr>games = [joined_game], ledger = []\<rparr>)"
    by (simp add: postVerifyJoinGame_def validateSignature_def step_defs js_eq_def
          LAMPORTS_PER_SOL_def num_of_def fl_small paid_env_def env0_def sol_payment_def
          alice_game_def joined_game_def join_request_def token_defs)
  have "reachable \<lparr>games = [?g0], ledger = []\<rparr>"
    using reachable.start s1 by (rule reachable.step)
  then have "reachable \<lparr>games = [alice_game], ledger = []\<rparr>"
    using s2 by (rule reachable.step)
  then show ?thesis
    using s3 by (rule reachable.step)
qed

theorem no_self_match_always_witness:
  "query self_join_request ''gameUid'' = Some ''u1''
   \<and> getGameById [joined_game\<lparr>opponent_username := None, opponent_address := None,
                                opponent_signature := None\<rparr>] ''u1'' = Some alice_game
   \<and> query self_join_request ''username'' = Some (username alice_game)
   \<and> postJoinGame env0 \<lparr>games = [alice_game], ledger = []\<rparr> self_join_request
       = (Inl CannotJoinOwnGame, \<lparr>games = [alice_game], ledger = []\<rparr>)
   \<and> postVerifyJoinGame env0 \<lparr>games = [alice_game], ledger = []\<rparr> self_join_request
       = (Inl CannotJoinOwnGame, \<lparr>games = [alice_game], ledger = []\<rparr>)
   \<and> reachable \<lparr>games = [joined_game], ledger = []\<rparr>
   \<and> no_self_match joined_game"
proof -
  have a: "postJoinGame env0 \<lparr>games = [alice_game], ledger = []\<rparr> self_join_request
       = (Inl CannotJoinOwnGame, \<lparr>games = [alice_game], ledger = []\<rparr>)"
    and b: "postVerifyJoinGame env0 \<lparr>games = [alice_game], ledger = []\<rparr> self_join_request
       = (Inl CannotJoinOwnGame, \<lparr>games = [alice_game], ledger = []\<rparr>)"
    using no_self_match_always [of self_join_request "''u1''"
            "\<lparr>games = [alice_game], ledger = []\<rparr>" alice_game env0]
    by (auto simp: step_defs env0_def alice_game_def self_join_request_def)
  have c: "no_self_match joined_game"
    using no_self_match_always [of self_join_request "''u1''"
            "\<lparr>games = [joined_game], ledger = []\<rparr>" alice_game env0] reachable_joined
    by simp
  show ?thesis
    using a b c reachable_joined by (simp add: step_defs env0_def alice_game_def joined_game_def
          self_join_request_def)
qed

section \<open>Completing a game\<close>

lemma postCompleteGame_success:
  assumes "postCompleteGame e w req = (Inr r, w')"
  obtains uid game stat where
    "query req ''gameUid'' = Some uid" "uid \<noteq> []"
    "getGameById (games w) uid = Some game" "is_verified game" "status game \<noteq> Completed"
    "pay_outcome e (ledger w) game stat = (None, ledger w')"
    "updateGame e (games w) (game_id game) (\<lambda>g. g\<lparr>status := Completed\<rparr>) = Inr (games w')"
  using assms unfolding postCompleteGame_def
  by (auto split: option.splits sum.splits if_splits prod.splits)

text \<open>
  What a successful call leaves behind: the game it read has the status
  \<^verbatim>\<open>completed\<close>, and a further call for the same game fails with "Game is already
  completed" and changes neither the table nor the ledger.
\<close>

lemma complete_after_success:
  assumes first: "postCompleteGame e w req = (Inr r, w')"
      and same: "query req2 ''gameUid'' = query req ''gameUid''"
  shows "(\<exists>uid game. query req ''gameUid'' = Some uid
            \<and> getGameById (games w') uid = Some game \<and> status game = Completed)
         \<and> postCompleteGame e2 w' req2 = (Inl AlreadyCompleted, w')"
proof -
  from first obtain uid game stat where
    uid: "query req ''gameUid'' = Some uid" "uid \<noteq> []"
    and game: "getGameById (games w) uid = Some game" "is_verified game"
    and upd: "updateGame e (games w) (game_id game) (\<lambda>g. g\<lparr>status := Completed\<rparr>) = Inr (games w')"
    by (rule postCompleteGame_success)
  let ?f = "\<lambda>g. if game_id g = game_id game then g\<lparr>status := Completed\<rparr> else g"
  have rows: "games w' = map ?f (games w)"
    using upd by (rule updateGame_rows)
  have "getGameById (games w') uid = map_option ?f (getGameById (games w) uid)"
    unfolding rows by (rule getGameById_map) simp
  then have found: "getGameById (games w') uid = Some (game\<lparr>status := Completed\<rparr>)"
    by (simp add: game)
  have second: "postCompleteGame e2 w' req2 = (Inl AlreadyCompleted, w')"
    by (simp add: postCompleteGame_def same uid found game)
  with uid found show ?thesis by simp
qed

text \<open>
  The table that holds the joined game of alice and bob and a second row for the same
  game of the chess platform is one that the handlers produce: by a further create
  request with that game id.
\<close>

lemma reachable_twin: "reachable \<lparr>games = [joined_game, twin_game], ledger = []\<rparr>"
proof -
  have p2: "parseFloat ''2'' = Num 2"
    by (simp add: parse_defs fl_small)
  have "handle CreateGame (env0\<lparr>insert_id := Some ''u2''\<rparr>)
          \<lparr>games = [joined_game], ledger = []\<rparr> create_ok_request
        = (Inr (PostResponse (Num 2) ''SOL'' ''AliceWallet''),
           \<lparr>games = [joined_game, twin_game], ledger = []\<rparr>)"
    by (simp add: postCreateGame_def validatedQueryParams_def step_defs p2
          env0_def alice_game_def joined_game_def twin_game_def create_ok_request_def
          token_defs LAMPORTS_PER_SOL_def fl_small)
  with reachable_joined show ?thesis by (rule reachable.step)
qed

text \<open>
  C3 says that two calls of complete in sequence make exactly one payout. The code pays
  first and writes the status \<^verbatim>\<open>completed\<close> afterwards, and a failure of that write
  leaves the payout made and the status as it was. With a store that refuses the update,
  the first call pays bob the prize and answers with an error, and the second call pays
  him again. With a second row for the same game id the update never selects a single
  row: every call pays and fails.
\<close>

theorem postCompleteGame_pays_twice:
  "postCompleteGame refusing_env \<lparr>games = [joined_game], ledger = []\<rparr> complete_request
     = (Inl ErrorUpdatingGame,
        \<lparr>games = [joined_game],
         ledger = [(\<lparr>cfg_amount = fl (39 / 10), cfg_token = ''SOL'',
                     cfg_recipientAddress = ''BobWallet''\<rparr>, True)]\<rparr>)
   \<and> postCompleteGame mate_env
        \<lparr>games = [joined_game],
         ledger = [(\<lparr>cfg_amount = fl (39 / 10), cfg_token = ''SOL'',
                     cfg_recipientAddress = ''BobWallet''\<rparr>, True)]\<rparr> complete_request
     = (Inr CompletedAction,
        \<lparr>games = [joined_game\<lparr>status := Completed\<rparr>],
         ledger = [(\<lparr>cfg_amount = fl (39 / 10), cfg_token = ''SOL'',
                     cfg_recipientAddress = ''BobWallet''\<rparr>, True),
                   (\<lparr>cfg_amount = fl (39 / 10), cfg_token = ''SOL'',
                     cfg_recipientAddress = ''BobWallet''\<rparr>, True)]\<rparr>)
   \<and> postCompleteGame mate_env \<lparr>games = [joined_game, twin_game], ledger = []\<rparr>
        complete_request
     = (Inl ErrorUpdatingGame,
        \<lparr>games = [joined_game, twin_game],
         ledger = [(\<lparr>cfg_amount = fl (39 / 10), cfg_token = ''SOL'',
                     cfg_recipientAddress = ''BobWallet''\<rparr>, True)]\<rparr>)
   \<and> postCompleteGame mate_env
        \<lparr>games = [joined_game, twin_game],
         ledger = [(\<lparr>cfg_amount = fl (39 / 10), cfg_token = ''SOL'',
                     cfg_recipientAddress = ''BobWallet''\<rparr>, True)]\<rparr> complete_request
     = (Inl ErrorUpdatingGame,
        \<lparr>games = [joined_game, twin_game],
         ledger = [(\<lparr>cfg_amount = fl (39 / 10), cfg_token = ''SOL'',
                     cfg_recipientAddress = ''BobWallet''\<rparr>, True),
                   (\<lparr>cfg_amount = fl (39 / 10), cfg_token = ''SOL'',
                     cfg_recipientAddress = ''BobWallet''\<rparr>, True)]\<rparr>)"
  by (simp add: postCompleteGame_def pay_outcome_def sendPayout_def logged_def try_block_def
        winner_payout_of_2 payout_lamports addresses_def property_key_def undefined_key_def
        step_defs
        refusing_env_def mate_env_def env0_def joined_game_def twin_game_def alice_game_def
        complete_request_def)

text \<open>
  C2 says that a complete attempt whose payout submission fails is fatal and leaves the
  status unchanged. \<^verbatim>\<open>sendPayout\<close> catches the failure and returns
  \<^verbatim>\<open>{success: false}\<close>, and \<^verbatim>\<open>postCompleteGame\<close> does not read what it returns: with a
  ledger that confirms neither refund of the draw, the handler still answers with success
  and sets the status to \<^verbatim>\<open>completed\<close>, so that a retry is refused.
\<close>

theorem postCompleteGame_ignores_failed_payout:
  "postCompleteGame failing_env \<lparr>games = [joined_game], ledger = []\<rparr> complete_request
     = (Inr CompletedAction,
        \<lparr>games = [joined_game\<lparr>status := Completed\<rparr>],
         ledger = [(\<lparr>cfg_amount = fl (19 / 10), cfg_token = ''SOL'',
                     cfg_recipientAddress = ''AliceWallet''\<rparr>, False),
                   (\<lparr>cfg_amount = fl (19 / 10), cfg_token = ''SOL'',
                     cfg_recipientAddress = ''BobWallet''\<rparr>, False)]\<rparr>)
   \<and> status joined_game = Created"
  by (simp add: postCompleteGame_def pay_outcome_def sendPayout_def logged_def try_block_def
        draw_payout_of_2 payout_lamports step_defs failing_env_def draw_env_def env0_def
        joined_game_def alice_game_def complete_request_def)




lemma pay_outcome_mate:
  assumes "stat_status stat \<noteq> DRAW e"
      and "players stat = Some (white, black)" and "winner stat = Some c"
      and "addresses game (case c of White \<Rightarrow> white | Black \<Rightarrow> black) = Own (Some a)"
      and "valid_address e a"
  shows "pay_outcome e led game stat = (None, led @ [logged e (winner_payout e game a)])"
  using assms
  by (simp add: pay_outcome_def sendPayout_valid valid_address_def undefined_key_def
           split: colour.splits)

lemma pay_outcome_unresolved:
  assumes "stat_status stat \<noteq> DRAW e"
      and "players stat = Some (white, black)" and "winner stat = Some c"
      and "addresses game (case c of White \<Rightarrow> white | Black \<Rightarrow> black) = NoMember
           \<or> addresses game (case c of White \<Rightarrow> white | Black \<Rightarrow> black) = Own None"
  shows "pay_outcome e led game stat
           = (Some (AddressNotFound (case c of White \<Rightarrow> white | Black \<Rightarrow> black)), led)"
  using assms
  by (auto simp: pay_outcome_def undefined_key_def split: colour.splits)

text \<open>
  What holds of a complete on a decisive outcome, for a status update that the store
  accepts. The winner who has the opponent's recorded user name is paid twice the wager
  less the fee at the opponent's address, in one payout. The winner who has the creator's
  user name is paid the same at the creator's address, unless the key of the opponent's
  entry is the creator's user name too. A winner who has neither user name, and not the
  name of an inherited member, stops the attempt with "Address not found for winner", no
  payout and no change.
\<close>

lemma decisive_prize:
  assumes "query req ''gameUid'' = Some uid" and "uid \<noteq> []"
      and "getGameById (games w) uid = Some game"
      and "is_verified game" and "status game \<noteq> Completed"
      and "account_of e req = Inr account"
      and "getGameStats e (game_id game) = Some stat"
      and "stat_status stat = MATE e" and "MATE e \<noteq> DRAW e"
      and "players stat = Some (white, black)" and "winner stat = Some c"
      and "wid = (case c of White \<Rightarrow> white | Black \<Rightarrow> black)"
      and "updateGame e (games w) (game_id game) (\<lambda>g. g\<lparr>status := Completed\<rparr>) = Inr rows"
  shows "(wid = username game \<and> property_key (opponent_username game) \<noteq> username game
            \<and> valid_address e (player_address game)
          \<longrightarrow> postCompleteGame e w req =
                (Inr CompletedAction,
                 \<lparr>games = rows,
                  ledger = ledger w @ [logged e (winner_payout e game (player_address game))]\<rparr>))
       \<and> (\<forall>oa. opponent_username game = Some wid \<and> opponent_address game = Some oa
                \<and> valid_address e oa
          \<longrightarrow> postCompleteGame e w req =
                (Inr CompletedAction,
                 \<lparr>games = rows, ledger = ledger w @ [logged e (winner_payout e game oa)]\<rparr>))
       \<and> (wid \<noteq> username game \<and> opponent_username game \<noteq> Some wid
            \<and> (opponent_username game = None \<longrightarrow> opponent_address game = None)
            \<and> wid \<notin> set Object_prototype
          \<longrightarrow> postCompleteGame e w req = (Inl (AddressNotFound wid), w))"
proof (intro conjI impI allI)
  have nd: "stat_status stat \<noteq> DRAW e" using assms(8,9) by simp
  {
    assume h: "wid = username game \<and> property_key (opponent_username game) \<noteq> username game
            \<and> valid_address e (player_address game)"
    then have "addresses game (case c of White \<Rightarrow> white | Black \<Rightarrow> black)
                 = Own (Some (player_address game))"
      using assms(12) by (auto simp: addresses_def)
    with nd assms(10,11) h have
      "pay_outcome e (ledger w) game stat
         = (None, ledger w @ [logged e (winner_payout e game (player_address game))])"
      by (intro pay_outcome_mate) simp_all
    then show "postCompleteGame e w req =
                (Inr CompletedAction,
                 \<lparr>games = rows,
                  ledger = ledger w @ [logged e (winner_payout e game (player_address game))]\<rparr>)"
      using assms(1-8,13) by (simp add: postCompleteGame_def)
  }
  {
    fix oa
    assume h: "opponent_username game = Some wid \<and> opponent_address game = Some oa
                \<and> valid_address e oa"
    then have "addresses game (case c of White \<Rightarrow> white | Black \<Rightarrow> black) = Own (Some oa)"
      using assms(12) by (auto simp: addresses_def property_key_def)
    with nd assms(10,11) h have
      "pay_outcome e (ledger w) game stat = (None, ledger w @ [logged e (winner_payout e game oa)])"
      by (intro pay_outcome_mate) simp_all
    then show "postCompleteGame e w req =
                (Inr CompletedAction,
                 \<lparr>games = rows, ledger = ledger w @ [logged e (winner_payout e game oa)]\<rparr>)"
      using assms(1-8,13) by (simp add: postCompleteGame_def)
  }
  {
    assume h: "wid \<noteq> username game \<and> opponent_username game \<noteq> Some wid
            \<and> (opponent_username game = None \<longrightarrow> opponent_address game = None)
            \<and> wid \<notin> set Object_prototype"
    then have "addresses game (case c of White \<Rightarrow> white | Black \<Rightarrow> black) = NoMember
               \<or> addresses game (case c of White \<Rightarrow> white | Black \<Rightarrow> black) = Own None"
      using assms(12) by (auto simp: addresses_def property_key_def split: option.splits)
    with nd assms(10,11) have
      "pay_outcome e (ledger w) game stat
         = (Some (AddressNotFound (case c of White \<Rightarrow> white | Black \<Rightarrow> black)), ledger w)"
      by (intro pay_outcome_unresolved) simp_all
    then show "postCompleteGame e w req = (Inl (AddressNotFound wid), w)"
      using assms(1-8,12) by (simp add: postCompleteGame_def)
  }
qed

text \<open>
  C4 says that every complete on a decisive outcome pays the winner at the address
  recorded for the winner's user name. The code looks the winner up in an object with two
  computed keys, the creator's user name and then the opponent's. For a game that nobody
  has joined the row has no opponent user name, and the second key is the text
  \<^verbatim>\<open>null\<close> with no value. When the creator's user name is that very text, the second
  entry replaces the first: the creator wins, the lookup finds nothing, and the attempt
  fails with no payout.
\<close>

theorem postCompleteGame_shadowed_creator:
  "username null_game = ''null'' \<and> opponent_username null_game = None
   \<and> player_address null_game = ''AliceWallet''
   \<and> getGameStats null_env (game_id null_game)
       = Some \<lparr>stat_status = ''mate'', players = Some (''null'', ''carol''),
               winner = Some White\<rparr>
   \<and> postCompleteGame null_env \<lparr>games = [null_game], ledger = []\<rparr> complete_request
       = (Inl (AddressNotFound ''null''), \<lparr>games = [null_game], ledger = []\<rparr>)"
  by (simp add: postCompleteGame_def pay_outcome_def addresses_def property_key_def
        undefined_key_def step_defs null_env_def env0_def null_game_def
        alice_game_def complete_request_def)

end
